theory Spec2Isabelle
  imports Main "HOL-Library.Signed_Division" "HOL-Library.AList" "HOL-Library.Sublist"
begin

section \<open>Go library functions used by the service package\<close>

text \<open>
  Go strings are byte sequences, so they are modelled as \<open>string\<close> (a list of 8-bit
  characters). Go's \<open>int\<close> and \<open>int64\<close> values (channel ids, statuses, HTTP status codes,
  timestamps) are modelled as \<open>int\<close>; no function below does arithmetic on them that
  could overflow, apart from one division by a constant.
\<close>

text \<open>A string given by its bytes, for the characters outside ASCII.\<close>

definition bytes :: "nat list \<Rightarrow> string" where
  "bytes bs = map char_of bs"

definition digit_char :: "nat \<Rightarrow> char" where
  "digit_char d = char_of (48 + d)"

text \<open>The decimal digits of a natural number, most significant first.\<close>

fun digits :: "nat \<Rightarrow> string" where
  "digits n = (if n < 10 then [digit_char n] else digits (n div 10) @ [digit_char (n mod 10)])"

declare digits.simps [simp del]

text \<open>What the verb \<open>%d\<close> of \<open>fmt.Sprintf\<close> prints for an integer.\<close>

definition fmt_d :: "int \<Rightarrow> string" where
  "fmt_d i = (if i < 0 then CHR ''-'' # digits (nat (- i)) else digits (nat i))"

text \<open>\<open>strings.HasPrefix(s, prefix)\<close> and \<open>strings.Contains(s, substr)\<close>, on bytes.\<close>

fun HasPrefix :: "string \<Rightarrow> string \<Rightarrow> bool" where
  "HasPrefix s [] = True"
| "HasPrefix [] (p # ps) = False"
| "HasPrefix (c # cs) (p # ps) = (c = p \<and> HasPrefix cs ps)"

fun Contains :: "string \<Rightarrow> string \<Rightarrow> bool" where
  "Contains [] substr = (substr = [])"
| "Contains (c # cs) substr = (HasPrefix (c # cs) substr \<or> Contains cs substr)"


section \<open>Package-level settings and constants\<close>

text \<open>
  The feature switches, the keyword list and the named constants that channel.go reads
  from the packages common, constant, dto and operation_setting. Their declarations are
  not part of the files verified here, so every function takes them as a parameter.
\<close>

record globals =
  AutomaticDisableChannelEnabled :: bool
  AutomaticEnableChannelEnabled :: bool
  AutomaticDisableKeywords :: "string list"
  ChannelTypeGemini :: int
  ChannelStatusEnabled :: int
  ChannelStatusAutoDisabled :: int
  NotifyTypeChannelUpdate :: string


section \<open>types: ChannelError and NewAPIError\<close>

record ChannelError =
  ChannelId :: int
  ChannelType :: int
  ChannelName :: string
  IsMultiKey :: bool
  AutoBan :: bool
  UsingKey :: string
  Tag :: string

definition NewChannelError ::
  "int \<Rightarrow> int \<Rightarrow> string \<Rightarrow> bool \<Rightarrow> string \<Rightarrow> bool \<Rightarrow> string \<Rightarrow> ChannelError" where
  "NewChannelError channelId channelType channelName isMultiKey usingKey autoBan tag =
     \<lparr>ChannelId = channelId, ChannelType = channelType, ChannelName = channelName,
      IsMultiKey = isMultiKey, AutoBan = autoBan, UsingKey = usingKey, Tag = tag\<rparr>"

text \<open>
  Modelled from the spec: the type \<open>NewAPIError\<close>, its method \<open>ToOpenAIError\<close> with the
  result's fields \<open>Code\<close> and \<open>Type\<close>, its method \<open>Error\<close>, and the predicates
  \<open>IsChannelError\<close> and \<open>IsSkipRetryError\<close> are declared in package types outside the
  files verified here. The spec describes an upstream error as carrying an HTTP-like
  status code, a human-readable message, a normalized provider-style error with a code
  and a type, and two flags, channel-level and skip-retry, set by the caller before
  classification runs. Only the field \<open>StatusCode\<close> is read directly by channel.go.
\<close>

record OpenAIError =
  Code :: string
  Type :: string

record NewAPIError =
  StatusCode :: int
  channelLevel :: bool
  skipRetry :: bool
  relayError :: OpenAIError
  errorMessage :: string

definition IsChannelError :: "NewAPIError \<Rightarrow> bool" where
  "IsChannelError err = channelLevel err"

definition IsSkipRetryError :: "NewAPIError \<Rightarrow> bool" where
  "IsSkipRetryError err = skipRetry err"

definition ToOpenAIError :: "NewAPIError \<Rightarrow> OpenAIError" where
  "ToOpenAIError err = relayError err"

definition Error :: "NewAPIError \<Rightarrow> string" where
  "Error err = errorMessage err"


section \<open>service/channel.go: the error classifier\<close>

text \<open>
  The collaborators of the classifier that live outside channel.go: the keyword search
  \<open>AcSearch\<close> (it returns whether a keyword was found, and the keywords found) and the
  library function \<open>strings.ToLower\<close>.
\<close>

record classifier_env =
  AcSearch :: "string \<Rightarrow> string list \<Rightarrow> bool \<Rightarrow> bool \<times> string list"
  ToLower :: "string \<Rightarrow> string"

abbreviation StatusUnauthorized :: int where "StatusUnauthorized \<equiv> 401"
abbreviation StatusForbidden :: int where "StatusForbidden \<equiv> 403"

text \<open>
  A nil \<open>*NewAPIError\<close> is \<open>None\<close>. The two switch statements of the source compare the
  code and the type with their string cases in order; no case falls through.
\<close>

definition ShouldDisableChannel ::
  "globals \<Rightarrow> classifier_env \<Rightarrow> int \<Rightarrow> NewAPIError option \<Rightarrow> bool" where
  "ShouldDisableChannel g env channelType err =
     (if \<not> AutomaticDisableChannelEnabled g then False
      else case err of
        None \<Rightarrow> False
      | Some e \<Rightarrow>
          if IsChannelError e then True
          else if IsSkipRetryError e then False
          else if StatusCode e = StatusUnauthorized then True
          else if StatusCode e = StatusForbidden \<and> channelType = ChannelTypeGemini g then True
          else
            let oaiErr = ToOpenAIError e in
            if Code oaiErr = ''invalid_api_key'' then True
            else if Code oaiErr = ''account_deactivated'' then True
            else if Code oaiErr = ''billing_not_active'' then True
            else if Code oaiErr = ''pre_consume_token_quota_failed'' then True
            else if Code oaiErr = ''Arrearage'' then True
            else if Type oaiErr = ''insufficient_quota'' then True
            else if Type oaiErr = ''insufficient_user_quota'' then True
            else if Type oaiErr = ''authentication_error'' then True
            else if Type oaiErr = ''permission_error'' then True
            else if Type oaiErr = ''forbidden'' then True
            else
              let lowerMessage = ToLower env (Error e) in
              fst (AcSearch env lowerMessage (AutomaticDisableKeywords g) True))"

definition ShouldEnableChannel :: "globals \<Rightarrow> NewAPIError option \<Rightarrow> int \<Rightarrow> bool" where
  "ShouldEnableChannel g newAPIError status =
     (if \<not> AutomaticEnableChannelEnabled g then False
      else if newAPIError \<noteq> None then False
      else if status \<noteq> ChannelStatusAutoDisabled g then False
      else True)"

text \<open>The codes and types that the two switch statements list.\<close>

definition disable_codes :: "string list" where
  "disable_codes = [''invalid_api_key'', ''account_deactivated'', ''billing_not_active'',
     ''pre_consume_token_quota_failed'', ''Arrearage'']"

definition disable_types :: "string list" where
  "disable_types = [''insufficient_quota'', ''insufficient_user_quota'',
     ''authentication_error'', ''permission_error'', ''forbidden'']"


section \<open>service/channel.go: disabling and enabling a channel\<close>

text \<open>\<open>fmt.Sprintf("%s_%d_%d", dto.NotifyTypeChannelUpdate, channelId, status)\<close>\<close>

definition formatNotifyType :: "globals \<Rightarrow> int \<Rightarrow> int \<Rightarrow> string" where
  "formatNotifyType g channelId status =
     NotifyTypeChannelUpdate g @ ''_'' @ fmt_d channelId @ ''_'' @ fmt_d status"

text \<open>
  The first log line of DisableChannel: the channel (name, id) has failed and is about to
  be disabled, with the reason.
\<close>

definition disable_log_message :: "string \<Rightarrow> int \<Rightarrow> string \<Rightarrow> string" where
  "disable_log_message channelName channelId reason =
     bytes [233, 128, 154, 233, 129, 147, 227, 128, 140] @ channelName @
       bytes [227, 128, 141, 239, 188, 136] @ ''#'' @ fmt_d channelId @
       bytes [239, 188, 137, 229, 143, 145, 231, 148, 159, 233, 148, 153, 232, 175, 175,
       239, 188, 140, 229, 135, 134, 229, 164, 135, 231, 166, 129, 231, 148, 168, 239, 188,
       140, 229, 142, 159, 229, 155, 160, 239, 188, 154] @ reason"

text \<open>
  The second log line of DisableChannel: automatic disabling is not enabled for the
  channel (name, id), the disable operation is skipped.
\<close>

definition skip_log_message :: "string \<Rightarrow> int \<Rightarrow> string" where
  "skip_log_message channelName channelId =
     bytes [233, 128, 154, 233, 129, 147, 227, 128, 140] @ channelName @
       bytes [227, 128, 141, 239, 188, 136] @ ''#'' @ fmt_d channelId @
       bytes [239, 188, 137, 230, 156, 170, 229, 144, 175, 231, 148, 168, 232, 135, 170,
       229, 138, 168, 231, 166, 129, 231, 148, 168, 229, 138, 159, 232, 131, 189, 239, 188,
       140, 232, 183, 179, 232, 191, 135, 231, 166, 129, 231, 148, 168, 230, 147, 141, 228,
       189, 156]"

text \<open>
  The subject of the alarm notification (channel name and id).
\<close>

definition disable_subject :: "string \<Rightarrow> int \<Rightarrow> string" where
  "disable_subject channelName channelId =
       bytes [227, 128, 144, 233, 128, 154, 233, 129, 147, 229, 145, 138, 232, 173, 166,
       227, 128, 145] @ ''- '' @ channelName @ '' (#'' @ fmt_d channelId @ '')''"

text \<open>
  The markdown body of the alarm notification: channel name, id, the change from enabled
  to automatically disabled, the time, the severity and the reason.
\<close>

definition disable_content :: "string \<Rightarrow> int \<Rightarrow> string \<Rightarrow> string \<Rightarrow> string" where
  "disable_content channelName channelId now reason =
     ''**'' @
       bytes [227, 128, 144, 233, 128, 154, 233, 129, 147, 229, 145, 138, 232, 173, 166,
       227, 128, 145] @ ''- New API '' @
       bytes [233, 128, 154, 233, 129, 147, 231, 155, 145, 230, 142, 167] @ '' '' @
       bytes [240, 159, 154, 168] @ ''**'' @ bytes [10] @ ''**'' @ bytes [240, 159, 147, 161] @
       '' '' @ bytes [233, 128, 154, 233, 129, 147, 229, 144, 141, 231, 167, 176] @ '':** '' @
       channelName @ bytes [10] @ ''**'' @ bytes [240, 159, 134, 148] @ '' '' @
       bytes [233, 128, 154, 233, 129, 147] @ ''ID:** #'' @ fmt_d channelId @ bytes [10] @
       ''**'' @ bytes [240, 159, 148, 132] @ '' '' @
       bytes [231, 138, 182, 230, 128, 129, 229, 143, 152, 230, 155, 180] @ '': '' @
       bytes [229, 144, 175, 231, 148, 168] @ '' '' @ bytes [226, 134, 146] @ '' '' @
       bytes [232, 135, 170, 229, 138, 168, 231, 166, 129, 231, 148, 168] @ ''**'' @
       bytes [10] @ ''**'' @ bytes [240, 159, 149, 152] @ '' '' @
       bytes [231, 166, 129, 231, 148, 168, 230, 151, 182, 233, 151, 180] @ '':** '' @ now @
       bytes [10] @ ''**'' @ bytes [226, 154, 160, 239, 184, 143] @ '' '' @
       bytes [229, 145, 138, 232, 173, 166, 231, 173, 137, 231, 186, 167] @ '': '' @
       bytes [228, 184, 165, 233, 135, 141] @ ''**'' @ bytes [10] @ ''**'' @
       bytes [240, 159, 147, 157] @ '' '' @
       bytes [229, 164, 177, 232, 180, 165, 229, 142, 159, 229, 155, 160] @ '':** '' @ reason @
       bytes [10] @ ''&nbsp;&nbsp;&nbsp;&nbsp;&nbsp;'' @ bytes [226, 128, 148, 226, 128, 148] @
       '' '' @
       bytes [240, 159, 167, 145, 226, 128, 141, 240, 159, 164, 157, 226, 128, 141, 240,
       159, 167, 145] @ '' LaiYe'' @ bytes [231, 167, 145, 230, 138, 128] @ '' -- '' @
       bytes [232, 191, 144, 231, 187, 180, 229, 155, 162, 233, 152, 159] @ '' '' @
       bytes [226, 128, 148, 226, 128, 148]"

text \<open>
  The subject of the recovery notification (channel name and id).
\<close>

definition enable_subject :: "string \<Rightarrow> int \<Rightarrow> string" where
  "enable_subject channelName channelId =
       bytes [227, 128, 144, 233, 128, 154, 233, 129, 147, 230, 129, 162, 229, 164, 141,
       227, 128, 145] @ ''- '' @ channelName @ '' (#'' @ fmt_d channelId @ '')''"

text \<open>
  The markdown body of the recovery notification: channel name, id, the change from
  automatically disabled to enabled, and the time.
\<close>

definition enable_content :: "string \<Rightarrow> int \<Rightarrow> string \<Rightarrow> string" where
  "enable_content channelName channelId now =
     ''**'' @
       bytes [227, 128, 144, 233, 128, 154, 233, 129, 147, 230, 129, 162, 229, 164, 141,
       227, 128, 145] @ ''- New API '' @
       bytes [233, 128, 154, 233, 129, 147, 231, 155, 145, 230, 142, 167] @ '' '' @
       bytes [226, 156, 133] @ ''**'' @ bytes [10] @ ''**'' @ bytes [240, 159, 147, 161] @
       '' '' @ bytes [233, 128, 154, 233, 129, 147, 229, 144, 141, 231, 167, 176] @ '':** '' @
       channelName @ bytes [10] @ ''**'' @ bytes [240, 159, 134, 148] @ '' '' @
       bytes [233, 128, 154, 233, 129, 147] @ ''ID:** #'' @ fmt_d channelId @ bytes [10] @
       ''**'' @ bytes [240, 159, 148, 132] @ '' '' @
       bytes [231, 138, 182, 230, 128, 129, 229, 143, 152, 230, 155, 180] @ '': '' @
       bytes [232, 135, 170, 229, 138, 168, 231, 166, 129, 231, 148, 168] @ '' '' @
       bytes [226, 134, 146] @ '' '' @ bytes [229, 144, 175, 231, 148, 168] @ ''**'' @
       bytes [10] @ ''**'' @ bytes [240, 159, 149, 152] @ '' '' @
       bytes [230, 129, 162, 229, 164, 141, 230, 151, 182, 233, 151, 180] @ '':** '' @ now @
       bytes [10] @ ''**'' @ bytes [226, 156, 168] @ '' '' @
       bytes [231, 138, 182, 230, 128, 129] @ '': '' @
       bytes [233, 128, 154, 233, 129, 147, 229, 183, 178, 230, 129, 162, 229, 164, 141,
       230, 173, 163, 229, 184, 184] @ ''**'' @ bytes [10] @
       ''&nbsp;&nbsp;&nbsp;&nbsp;&nbsp;'' @ bytes [226, 128, 148, 226, 128, 148] @ '' '' @
       bytes [240, 159, 167, 145, 226, 128, 141, 240, 159, 164, 157, 226, 128, 141, 240,
       159, 167, 145] @ '' LaiYe'' @ bytes [231, 167, 145, 230, 138, 128] @ '' -- '' @
       bytes [232, 191, 144, 231, 187, 180, 229, 155, 162, 233, 152, 159] @ '' '' @
       bytes [226, 128, 148, 226, 128, 148]"

text \<open>
  The effects of the two operations, in the order the code performs them: a line handed to
  \<open>common.SysLog\<close>, a call of the store's \<open>model.UpdateChannelStatus\<close> with its four
  arguments, and a notification handed to \<open>NotifyRootUser\<close> (key, subject, content).
\<close>

datatype event =
  SysLog string
| UpdateChannelStatus int string int string
| NotifyRootUser string string string

text \<open>
  The store and the clock are outside channel.go: \<open>store\<close> is the boolean that
  \<open>model.UpdateChannelStatus\<close> returns for its arguments, and \<open>now\<close> is the text of
  \<open>time.Now().Format("2006-01-02 15:04:05")\<close>. Each operation returns the list of its
  effects.
\<close>

definition DisableChannel ::
  "globals \<Rightarrow> (int \<Rightarrow> string \<Rightarrow> int \<Rightarrow> string \<Rightarrow> bool) \<Rightarrow> string \<Rightarrow> ChannelError \<Rightarrow> string \<Rightarrow> event list" where
  "DisableChannel g store now channelError reason =
     SysLog (disable_log_message (ChannelName channelError) (ChannelId channelError) reason) #
     (if \<not> AutoBan channelError then
        [SysLog (skip_log_message (ChannelName channelError) (ChannelId channelError))]
      else
        UpdateChannelStatus (ChannelId channelError) (UsingKey channelError)
          (ChannelStatusAutoDisabled g) reason #
        (let success = store (ChannelId channelError) (UsingKey channelError)
                         (ChannelStatusAutoDisabled g) reason
         in if success then
              [NotifyRootUser
                 (formatNotifyType g (ChannelId channelError) (ChannelStatusAutoDisabled g))
                 (disable_subject (ChannelName channelError) (ChannelId channelError))
                 (disable_content (ChannelName channelError) (ChannelId channelError) now reason)]
            else []))"

definition EnableChannel ::
  "globals \<Rightarrow> (int \<Rightarrow> string \<Rightarrow> int \<Rightarrow> string \<Rightarrow> bool) \<Rightarrow> string \<Rightarrow> int \<Rightarrow> string \<Rightarrow> string \<Rightarrow> event list" where
  "EnableChannel g store now channelId usingKey channelName =
     UpdateChannelStatus channelId usingKey (ChannelStatusEnabled g) [] #
     (let success = store channelId usingKey (ChannelStatusEnabled g) []
      in if success then
           [NotifyRootUser
              (formatNotifyType g channelId (ChannelStatusEnabled g))
              (enable_subject channelName channelId)
              (enable_content channelName channelId now)]
         else [])"

text \<open>The effects that change state or notify: everything but a log line.\<close>

fun is_SysLog :: "event \<Rightarrow> bool" where
  "is_SysLog (SysLog line) = True"
| "is_SysLog (UpdateChannelStatus channelId usingKey status reason) = False"
| "is_SysLog (NotifyRootUser notifyType subject content) = False"


section \<open>service/webhook.go: formatting, signing and delivering a notification\<close>

text \<open>
  \<open>strings.ReplaceAll(s, old, new)\<close> for a non-empty \<open>old\<close>: the occurrences of \<open>old\<close> are
  replaced from left to right, without overlap. Both calls in webhook.go pass a non-empty
  literal for \<open>old\<close>; the model has no equation for an empty one.
\<close>

fun ReplaceAll :: "string \<Rightarrow> string \<Rightarrow> string \<Rightarrow> string" where
  "ReplaceAll [] (o1 # os) new = []"
| "ReplaceAll (c # cs) (o1 # os) new =
     (if HasPrefix (c # cs) (o1 # os)
      then new @ ReplaceAll (drop (length (o1 # os)) (c # cs)) (o1 # os) new
      else c # ReplaceAll cs (o1 # os) new)"

text \<open>
  The notification \<open>dto.Notify\<close>; its values are of any type (\<open>[]interface{}\<close>), here
  the type parameter \<open>'v\<close>.
\<close>

record 'v Notify =
  notify_Type :: string
  notify_Title :: string
  notify_Content :: string
  notify_Values :: "'v list"

record 'v WebhookPayload =
  payload_Type :: string
  payload_Title :: string
  payload_Content :: string
  payload_Values :: "'v list"
  payload_Timestamp :: int

record DingTalkMarkdownPayload =
  MsgType :: string
  Markdown_Title :: string
  Markdown_Text :: string

text \<open>What is handed to \<open>json.Marshal\<close>: one of the two payload structs.\<close>

datatype 'v payload =
  DingTalk DingTalkMarkdownPayload
| Generic "'v WebhookPayload"

text \<open>
  The request descriptor for the worker (URL, Key, Method, Headers, Body) and the parts of
  an \<open>http.Request\<close> that the function sets. Headers are association lists; setting a
  header replaces the value of a key that is present.
\<close>

record WorkerRequest =
  wr_URL :: string
  wr_Key :: string
  wr_Method :: string
  wr_Headers :: "(string \<times> string) list"
  wr_Body :: string

record HttpRequest =
  req_Method :: string
  req_URL :: string
  req_Header :: "(string \<times> string) list"
  req_Body :: string

record FetchSetting =
  EnableSSRFProtection :: bool
  AllowPrivateIp :: bool
  DomainFilterMode :: bool
  IpFilterMode :: bool
  DomainList :: "string list"
  IpList :: "string list"
  AllowedPorts :: "string list"
  ApplyIPFilterForDomain :: bool

text \<open>
  Everything webhook.go calls or reads outside itself is a parameter:
  \<^item> \<open>Sprintf\<close> is \<open>fmt.Sprintf(content, value)\<close> with one argument;
  \<^item> \<open>Marshal\<close> is \<open>json.Marshal\<close>: the text of its error, or the bytes;
  \<^item> \<open>hmac_sha256 key message\<close> is the digest of \<open>hmac.New(sha256.New, key)\<close> after
    writing the message; \<open>hex_EncodeToString\<close>, \<open>base64_EncodeToString\<close> (the standard
    encoding) and \<open>QueryEscape\<close> are the library functions of these names;
  \<^item> \<open>Now_Unix\<close> is the first reading of the clock, in seconds, and \<open>Now_UnixNano\<close> the
    second reading, in nanoseconds;
  \<^item> \<open>EnableWorker\<close>, \<open>WorkerValidKey\<close> and \<open>GetFetchSetting\<close> are the settings read from
    system_setting;
  \<^item> \<open>ValidateURLWithFetchSetting\<close> is the SSRF validator: \<open>None\<close> when it accepts the
    URL, the text of its error otherwise;
  \<^item> \<open>NewRequest_error method url\<close> is the error of \<open>http.NewRequest\<close>, if any;
  \<^item> \<open>DoWorkerRequest\<close> and \<open>client_Do\<close> perform the exchange: the text of the error, or
    the status code of the response.
\<close>

record 'v webhook_env =
  Sprintf :: "string \<Rightarrow> 'v \<Rightarrow> string"
  Marshal :: "'v payload \<Rightarrow> string + string"
  hmac_sha256 :: "string \<Rightarrow> string \<Rightarrow> string"
  hex_EncodeToString :: "string \<Rightarrow> string"
  base64_EncodeToString :: "string \<Rightarrow> string"
  QueryEscape :: "string \<Rightarrow> string"
  Now_Unix :: int
  Now_UnixNano :: int
  EnableWorker :: bool
  WorkerValidKey :: string
  GetFetchSetting :: FetchSetting
  ValidateURLWithFetchSetting ::
    "string \<Rightarrow> bool \<Rightarrow> bool \<Rightarrow> bool \<Rightarrow> bool \<Rightarrow> string list \<Rightarrow> string list \<Rightarrow> string list \<Rightarrow> bool
      \<Rightarrow> string option"
  NewRequest_error :: "string \<Rightarrow> string \<Rightarrow> string option"
  DoWorkerRequest :: "WorkerRequest \<Rightarrow> string + int"
  client_Do :: "HttpRequest \<Rightarrow> string + int"

text \<open>The errors that \<open>SendWebhookNotify\<close> returns, one constructor for each \<open>fmt.Errorf\<close>.\<close>

datatype send_error =
  MarshalDingTalkFailed string
| MarshalFailed string
| WorkerRequestFailed string
| RequestRejected string
| CreateRequestFailed string
| SendRequestFailed string
| StatusCodeFailed int

fun error_text :: "send_error \<Rightarrow> string" where
  "error_text (MarshalDingTalkFailed err) = ''failed to marshal dingtalk webhook payload: '' @ err"
| "error_text (MarshalFailed err) = ''failed to marshal webhook payload: '' @ err"
| "error_text (WorkerRequestFailed err) = ''failed to send webhook request through worker: '' @ err"
| "error_text (RequestRejected err) = ''request reject: '' @ err"
| "error_text (CreateRequestFailed err) = ''failed to create webhook request: '' @ err"
| "error_text (SendRequestFailed err) = ''failed to send webhook request: '' @ err"
| "error_text (StatusCodeFailed statusCode) =
     ''webhook request failed with status code: '' @ fmt_d statusCode"

text \<open>
  What the function does to the outside, in order: the validation of a URL, the
  construction of an HTTP request (method, URL), the exchange of a request through the
  HTTP client, the exchange of a descriptor through the worker, and the closing of a
  response body.
\<close>

datatype io_event =
  ValidateURL string
| NewRequest string string
| HttpDo HttpRequest
| WorkerDo WorkerRequest
| BodyClose

definition generateSignature :: "'v webhook_env \<Rightarrow> string \<Rightarrow> string \<Rightarrow> string" where
  "generateSignature env secret payload = hex_EncodeToString env (hmac_sha256 env secret payload)"

definition isDingTalkWebhook :: "string \<Rightarrow> bool" where
  "isDingTalkWebhook webhookURL \<longleftrightarrow>
     Contains webhookURL ''oapi.dingtalk.com'' \<or> Contains webhookURL ''api.dingtalk.com''"

definition generateDingTalkSign :: "'v webhook_env \<Rightarrow> string \<Rightarrow> int \<Rightarrow> string" where
  "generateDingTalkSign env secret timestamp =
     (let stringToSign = fmt_d timestamp @ [CHR 0x0A] @ secret
      in base64_EncodeToString env (hmac_sha256 env secret stringToSign))"

text \<open>The loop over \<open>data.Values\<close> that fills the placeholders of the content.\<close>

fun substitute :: "(string \<Rightarrow> 'v \<Rightarrow> string) \<Rightarrow> string \<Rightarrow> 'v list \<Rightarrow> string" where
  "substitute sprintf content [] = content"
| "substitute sprintf content (v # values) = substitute sprintf (sprintf content v) values"

text \<open>The DingTalk markdown payload, built from the substituted content.\<close>

definition dingTalkPayload :: "globals \<Rightarrow> 'v Notify \<Rightarrow> string \<Rightarrow> DingTalkMarkdownPayload" where
  "dingTalkPayload g data content =
     (let dingTalkContent = ReplaceAll content [CHR 0x0D, CHR 0x0A] [CHR 0x0A];
          dingTalkContent = ReplaceAll dingTalkContent [CHR 0x0A] (''  '' @ [CHR 0x0A]);
          includeTitle = (notify_Title data \<noteq> []);
          includeTitle = (if HasPrefix (notify_Type data) (NotifyTypeChannelUpdate g) then False
                          else includeTitle)
      in \<lparr>MsgType = ''markdown'', Markdown_Title = notify_Title data,
          Markdown_Text =
            (if includeTitle
             then ''### '' @ notify_Title data @ [CHR 0x0A, CHR 0x0A] @ dingTalkContent
             else dingTalkContent)\<rparr>)"

text \<open>
  The DingTalk destination: with a secret, the URL gets the parameters \<open>timestamp\<close> and
  \<open>sign\<close>. The division of the nanoseconds by \<open>1e6\<close> is Go's, which truncates.
\<close>

definition dingTalkURL :: "'v webhook_env \<Rightarrow> string \<Rightarrow> string \<Rightarrow> string" where
  "dingTalkURL env webhookURL secret =
     (if secret \<noteq> [] then
        let timestampMs = Now_UnixNano env sdiv 1000000;
            sign = generateDingTalkSign env secret timestampMs
        in if Contains webhookURL ''?''
           then webhookURL @ ''&timestamp='' @ fmt_d timestampMs @ ''&sign='' @ QueryEscape env sign
           else webhookURL @ ''?timestamp='' @ fmt_d timestampMs @ ''&sign='' @ QueryEscape env sign
      else webhookURL)"

text \<open>The payload struct that the function builds for a destination.\<close>

definition buildPayload :: "globals \<Rightarrow> 'v webhook_env \<Rightarrow> string \<Rightarrow> 'v Notify \<Rightarrow> 'v payload" where
  "buildPayload g env webhookURL data =
     (let content = substitute (Sprintf env) (notify_Content data) (notify_Values data);
          timestamp = Now_Unix env
      in if isDingTalkWebhook webhookURL then DingTalk (dingTalkPayload g data content)
         else Generic \<lparr>payload_Type = notify_Type data, payload_Title = notify_Title data,
                payload_Content = content, payload_Values = notify_Values data,
                payload_Timestamp = timestamp\<rparr>)"

text \<open>
  The first half of \<open>SendWebhookNotify\<close>: the bytes of the payload and the final URL, or
  the error of the encoding.
\<close>

definition prepare ::
  "globals \<Rightarrow> 'v webhook_env \<Rightarrow> string \<Rightarrow> string \<Rightarrow> 'v Notify \<Rightarrow> send_error + string \<times> string" where
  "prepare g env webhookURL secret data =
     (if isDingTalkWebhook webhookURL then
        case Marshal env (buildPayload g env webhookURL data) of
          Inl err \<Rightarrow> Inl (MarshalDingTalkFailed err)
        | Inr payloadBytes \<Rightarrow> Inr (payloadBytes, dingTalkURL env webhookURL secret)
      else
        case Marshal env (buildPayload g env webhookURL data) of
          Inl err \<Rightarrow> Inl (MarshalFailed err)
        | Inr payloadBytes \<Rightarrow> Inr (payloadBytes, webhookURL))"

text \<open>The second half in worker mode: the descriptor, and the exchange through the worker.\<close>

definition workerRequest :: "'v webhook_env \<Rightarrow> string \<Rightarrow> string \<Rightarrow> string \<Rightarrow> string \<Rightarrow> WorkerRequest" where
  "workerRequest env webhookURL secret payloadBytes finalWebhookURL =
     (let workerReq = \<lparr>wr_URL = finalWebhookURL, wr_Key = WorkerValidKey env, wr_Method = ''POST'',
            wr_Headers = [(''Content-Type'', ''application/json'')], wr_Body = payloadBytes\<rparr>
      in if secret \<noteq> [] \<and> \<not> isDingTalkWebhook webhookURL then
           let signature = generateSignature env secret payloadBytes;
               workerReq = workerReq\<lparr>wr_Headers :=
                 AList.update ''X-Webhook-Signature'' signature (wr_Headers workerReq)\<rparr>
           in workerReq\<lparr>wr_Headers :=
                AList.update ''Authorization'' (''Bearer '' @ secret) (wr_Headers workerReq)\<rparr>
         else workerReq)"

definition sendThroughWorker ::
  "'v webhook_env \<Rightarrow> string \<Rightarrow> string \<Rightarrow> string \<Rightarrow> string \<Rightarrow> send_error option \<times> io_event list" where
  "sendThroughWorker env webhookURL secret payloadBytes finalWebhookURL =
     (let workerReq = workerRequest env webhookURL secret payloadBytes finalWebhookURL
      in case DoWorkerRequest env workerReq of
           Inl err \<Rightarrow> (Some (WorkerRequestFailed err), [WorkerDo workerReq])
         | Inr statusCode \<Rightarrow>
             (if statusCode < 200 \<or> statusCode \<ge> 300 then Some (StatusCodeFailed statusCode)
              else None,
              [WorkerDo workerReq, BodyClose]))"

text \<open>
  The second half in direct mode: the validation of the URL with the fetch settings, then
  the request, then the exchange through the HTTP client.
\<close>

definition httpRequest :: "'v webhook_env \<Rightarrow> string \<Rightarrow> string \<Rightarrow> string \<Rightarrow> string \<Rightarrow> HttpRequest" where
  "httpRequest env webhookURL secret payloadBytes finalWebhookURL =
     (let req = \<lparr>req_Method = ''POST'', req_URL = finalWebhookURL, req_Header = [],
            req_Body = payloadBytes\<rparr>;
          req = req\<lparr>req_Header := AList.update ''Content-Type'' ''application/json'' (req_Header req)\<rparr>
      in if secret \<noteq> [] \<and> \<not> isDingTalkWebhook webhookURL then
           let signature = generateSignature env secret payloadBytes
           in req\<lparr>req_Header := AList.update ''X-Webhook-Signature'' signature (req_Header req)\<rparr>
         else req)"

definition validate :: "'v webhook_env \<Rightarrow> string \<Rightarrow> string option" where
  "validate env finalWebhookURL =
     (let fetchSetting = GetFetchSetting env
      in ValidateURLWithFetchSetting env finalWebhookURL
           (EnableSSRFProtection fetchSetting) (AllowPrivateIp fetchSetting)
           (DomainFilterMode fetchSetting) (IpFilterMode fetchSetting)
           (DomainList fetchSetting) (IpList fetchSetting) (AllowedPorts fetchSetting)
           (ApplyIPFilterForDomain fetchSetting))"

definition sendDirect ::
  "'v webhook_env \<Rightarrow> string \<Rightarrow> string \<Rightarrow> string \<Rightarrow> string \<Rightarrow> send_error option \<times> io_event list" where
  "sendDirect env webhookURL secret payloadBytes finalWebhookURL =
     (case validate env finalWebhookURL of
        Some err \<Rightarrow> (Some (RequestRejected err), [ValidateURL finalWebhookURL])
      | None \<Rightarrow>
         (case NewRequest_error env ''POST'' finalWebhookURL of
            Some err \<Rightarrow>
              (Some (CreateRequestFailed err),
               [ValidateURL finalWebhookURL, NewRequest ''POST'' finalWebhookURL])
          | None \<Rightarrow>
              let req = httpRequest env webhookURL secret payloadBytes finalWebhookURL
              in (case client_Do env req of
                    Inl err \<Rightarrow>
                      (Some (SendRequestFailed err),
                       [ValidateURL finalWebhookURL, NewRequest ''POST'' finalWebhookURL,
                        HttpDo req])
                  | Inr statusCode \<Rightarrow>
                      (if statusCode < 200 \<or> statusCode \<ge> 300
                       then Some (StatusCodeFailed statusCode) else None,
                       [ValidateURL finalWebhookURL, NewRequest ''POST'' finalWebhookURL,
                        HttpDo req, BodyClose]))))"

text \<open>
  \<open>SendWebhookNotify\<close> returns its error (\<open>None\<close> for nil) and the list of what it did to
  the outside.
\<close>

definition SendWebhookNotify ::
  "globals \<Rightarrow> 'v webhook_env \<Rightarrow> string \<Rightarrow> string \<Rightarrow> 'v Notify \<Rightarrow> send_error option \<times> io_event list" where
  "SendWebhookNotify g env webhookURL secret data =
     (case prepare g env webhookURL secret data of
        Inl err \<Rightarrow> (Some err, [])
      | Inr (payloadBytes, finalWebhookURL) \<Rightarrow>
          if EnableWorker env
          then sendThroughWorker env webhookURL secret payloadBytes finalWebhookURL
          else sendDirect env webhookURL secret payloadBytes finalWebhookURL)"

text \<open>The URL that an effect is addressed to, if it has one.\<close>

fun event_URL :: "io_event \<Rightarrow> string option" where
  "event_URL (ValidateURL u) = Some u"
| "event_URL (NewRequest method u) = Some u"
| "event_URL (HttpDo req) = Some (req_URL req)"
| "event_URL (WorkerDo workerReq) = Some (wr_URL workerReq)"
| "event_URL BodyClose = None"

text \<open>The body that an effect carries, if it has one.\<close>

fun event_Body :: "io_event \<Rightarrow> string option" where
  "event_Body (ValidateURL u) = None"
| "event_Body (NewRequest method u) = None"
| "event_Body (HttpDo req) = Some (req_Body req)"
| "event_Body (WorkerDo workerReq) = Some (wr_Body workerReq)"
| "event_Body BodyClose = None"

text \<open>
  An effect is addressed to the URL \<open>u\<close> with the body \<open>b\<close> when it names no other URL and
  carries no other body.
\<close>

definition addressed :: "string \<Rightarrow> string \<Rightarrow> io_event \<Rightarrow> bool" where
  "addressed u b ev \<longleftrightarrow>
     (event_URL ev = None \<or> event_URL ev = Some u) \<and> (event_Body ev = None \<or> event_Body ev = Some b)"


section \<open>The host of a URL, as the specification speaks of it\<close>

text \<open>
  The specification says that the chat-bot format is chosen when the host of the target
  URL matches a chat-bot domain. This is the host of a URL of the form
  \<open>scheme://[userinfo@]host[:port][/path][?query][#fragment]\<close>, for comparison with what
  \<open>isDingTalkWebhook\<close> tests; no function of the code computes it.
\<close>

fun drop_scheme :: "string \<Rightarrow> string" where
  "drop_scheme [] = []"
| "drop_scheme (c # cs) = (if HasPrefix (c # cs) ''://'' then drop 3 (c # cs) else drop_scheme cs)"

definition spec_url_host :: "string \<Rightarrow> string" where
  "spec_url_host u =
     (let rest = (if Contains u ''://'' then drop_scheme u else u);
          authority = takeWhile (\<lambda>c. c \<notin> set ''/?#'') rest;
          hostport = (if CHR ''@'' \<in> set authority
                      then drop 1 (dropWhile (\<lambda>c. c \<noteq> CHR ''@'') authority) else authority)
      in takeWhile (\<lambda>c. c \<noteq> CHR '':'') hostport)"

definition spec_host_is_chat_bot :: "string \<Rightarrow> bool" where
  "spec_host_is_chat_bot u \<longleftrightarrow>
     Contains (spec_url_host u) ''oapi.dingtalk.com'' \<or> Contains (spec_url_host u) ''api.dingtalk.com''"

text \<open>
  The specification says that the two parameters are joined with \<open>&\<close> when the URL already
  has a query string. A URL has a query string when a question mark stands before its
  fragment, that is before the first \<open>#\<close>; a question mark inside the fragment starts no
  query. This is for comparison with what \<open>dingTalkURL\<close> tests; no function of the code
  computes it.
\<close>

definition spec_has_query :: "string \<Rightarrow> bool" where
  "spec_has_query u \<longleftrightarrow> CHR ''?'' \<in> set (takeWhile (\<lambda>c. c \<noteq> CHR ''#'') u)"


section \<open>Example inputs\<close>

text \<open>
  Concrete settings, collaborators and inputs, on which the theorems below are
  instantiated. The constants 24, 1 and 3 and the prefix are example values of the
  settings; the collaborators are simple stand-ins of the right type.
\<close>

definition ascii_lower :: "string \<Rightarrow> string" where
  "ascii_lower s =
     map (\<lambda>c. let n = (of_char c :: nat) in if 65 \<le> n \<and> n \<le> 90 then char_of (n + 32) else c) s"

definition substring_search :: "string \<Rightarrow> string list \<Rightarrow> bool \<Rightarrow> bool \<times> string list" where
  "substring_search s keywords stopImmediately =
     (let found = filter (Contains s) keywords in (found \<noteq> [], found))"

definition example_env :: classifier_env where
  "example_env = \<lparr>AcSearch = substring_search, ToLower = ascii_lower\<rparr>"

definition example_globals :: globals where
  "example_globals = \<lparr>AutomaticDisableChannelEnabled = True, AutomaticEnableChannelEnabled = True,
     AutomaticDisableKeywords = [''quota exceeded''], ChannelTypeGemini = 24,
     ChannelStatusEnabled = 1, ChannelStatusAutoDisabled = 3,
     NotifyTypeChannelUpdate = ''channel_update''\<rparr>"

definition skip_retry_error :: NewAPIError where
  "skip_retry_error = \<lparr>StatusCode = 401, channelLevel = False, skipRetry = True,
     relayError = \<lparr>Code = ''invalid_api_key'', Type = ''insufficient_quota''\<rparr>,
     errorMessage = ''Quota Exceeded''\<rparr>"

definition plain_forbidden_error :: NewAPIError where
  "plain_forbidden_error = \<lparr>StatusCode = 403, channelLevel = False, skipRetry = False,
     relayError = \<lparr>Code = ''rate_limited'', Type = ''upstream_error''\<rparr>,
     errorMessage = ''Forbidden''\<rparr>"

definition unbanned_channel :: ChannelError where
  "unbanned_channel = NewChannelError 5 24 ''gemini-main'' False [] False []"

definition accepting_store :: "int \<Rightarrow> string \<Rightarrow> int \<Rightarrow> string \<Rightarrow> bool" where
  "accepting_store channelId usingKey status reason = True"

text \<open>
  A stand-in for \<open>fmt.Sprintf\<close> with one string argument: it puts the value in the place of
  the first \<open>%s\<close>. On a template with exactly one verb, \<open>%s\<close>, this is what \<open>fmt.Sprintf\<close>
  returns.
\<close>

fun fill_first_verb :: "string \<Rightarrow> string \<Rightarrow> string" where
  "fill_first_verb [] v = []"
| "fill_first_verb (c # cs) v =
     (if HasPrefix (c # cs) ''%s'' then v @ drop 2 (c # cs) else c # fill_first_verb cs v)"

text \<open>Stand-ins for the encoder, the digest and the encodings: they tag their arguments.\<close>

fun example_Marshal :: "string payload \<Rightarrow> string + string" where
  "example_Marshal (DingTalk p) = Inr (''{markdown:'' @ Markdown_Text p @ ''}'')"
| "example_Marshal (Generic p) = Inr (''{content:'' @ payload_Content p @ ''}'')"

definition example_fetchSetting :: FetchSetting where
  "example_fetchSetting = \<lparr>EnableSSRFProtection = True, AllowPrivateIp = False,
     DomainFilterMode = False, IpFilterMode = False, DomainList = [], IpList = [],
     AllowedPorts = [''443''], ApplyIPFilterForDomain = True\<rparr>"

text \<open>A validator that accepts the URLs that start with \<open>https://\<close> when protection is on.\<close>

definition example_validator ::
  "string \<Rightarrow> bool \<Rightarrow> bool \<Rightarrow> bool \<Rightarrow> bool \<Rightarrow> string list \<Rightarrow> string list \<Rightarrow> string list \<Rightarrow> bool
    \<Rightarrow> string option" where
  "example_validator u enableSSRFProtection allowPrivateIp domainFilterMode ipFilterMode
       domainList ipList allowedPorts applyIPFilterForDomain =
     (if enableSSRFProtection \<and> \<not> HasPrefix u ''https://'' then Some ''scheme not allowed''
      else None)"

definition example_webhook_env :: "string webhook_env" where
  "example_webhook_env = \<lparr>Sprintf = fill_first_verb, Marshal = example_Marshal,
     hmac_sha256 = (\<lambda>key message. ''hmac('' @ key @ '','' @ message @ '')''),
     hex_EncodeToString = (\<lambda>b. ''hex('' @ b @ '')''),
     base64_EncodeToString = (\<lambda>b. ''b64('' @ b @ '')''),
     QueryEscape = (\<lambda>s. ''esc('' @ s @ '')''),
     Now_Unix = 1700000000, Now_UnixNano = 1700000000123456789,
     EnableWorker = False, WorkerValidKey = ''worker-key'',
     GetFetchSetting = example_fetchSetting,
     ValidateURLWithFetchSetting = example_validator,
     NewRequest_error = (\<lambda>method u. None),
     DoWorkerRequest = (\<lambda>workerReq. Inr 200),
     client_Do = (\<lambda>req. Inr 200)\<rparr>"

definition example_notify :: "string Notify" where
  "example_notify = \<lparr>notify_Type = ''quota_exceed'', notify_Title = ''Quota'',
     notify_Content = ''remaining quota: %s'', notify_Values = [''12'']\<rparr>"


section \<open>The error classifier\<close>

lemma if_True_disj: "(if a then True else b) = (a \<or> b)"
  by simp

lemma if_False_conj: "(if a then False else b) = (\<not> a \<and> b)"
  by simp

lemma disable_codes_iff:
  "c \<in> set disable_codes \<longleftrightarrow>
     c = ''invalid_api_key'' \<or> c = ''account_deactivated'' \<or> c = ''billing_not_active'' \<or>
     c = ''pre_consume_token_quota_failed'' \<or> c = ''Arrearage''"
  unfolding disable_codes_def by (simp only: list.set insert_iff empty_iff simp_thms)

lemma disable_types_iff:
  "t \<in> set disable_types \<longleftrightarrow>
     t = ''insufficient_quota'' \<or> t = ''insufficient_user_quota'' \<or> t = ''authentication_error'' \<or>
     t = ''permission_error'' \<or> t = ''forbidden''"
  unfolding disable_types_def by (simp only: list.set insert_iff empty_iff simp_thms)

text \<open>
  The verdict on a non-nil error, as one formula: the rules of the function in their
  order of priority.
\<close>

lemma ShouldDisableChannel_rules:
  "ShouldDisableChannel g env channelType (Some e) \<longleftrightarrow>
     AutomaticDisableChannelEnabled g \<and>
     (IsChannelError e \<or>
      \<not> IsSkipRetryError e \<and>
        (StatusCode e = 401 \<or>
         StatusCode e = 403 \<and> channelType = ChannelTypeGemini g \<or>
         Code (ToOpenAIError e) \<in> set disable_codes \<or>
         Type (ToOpenAIError e) \<in> set disable_types \<or>
         fst (AcSearch env (ToLower env (Error e)) (AutomaticDisableKeywords g) True)))"
  unfolding disable_codes_iff disable_types_iff ShouldDisableChannel_def Let_def option.case
    if_True_disj if_False_conj
  by (simp only: simp_thms disj_assoc)

lemma ShouldDisableChannel_nil: "\<not> ShouldDisableChannel g env channelType None"
  by (simp add: ShouldDisableChannel_def)

text \<open>
  C1. An error flagged skip-retry and not flagged channel-level is never a reason to
  disable, whatever its status code, its code, its type and its message are and whatever
  the channel type and the settings are; an error flagged both channel-level and
  skip-retry is a reason to disable when the automatic-disable switch is on, since the
  channel-level rule comes first.
\<close>

theorem skip_retry_veto:
  "(IsSkipRetryError e \<and> \<not> IsChannelError e \<longrightarrow>
      \<not> ShouldDisableChannel g env channelType (Some e)) \<and>
   (AutomaticDisableChannelEnabled g \<and> IsChannelError e \<and> IsSkipRetryError e \<longrightarrow>
      ShouldDisableChannel g env channelType (Some e))"
  by (simp add: ShouldDisableChannel_rules)

theorem skip_retry_veto_witness:
  "IsSkipRetryError skip_retry_error \<and> \<not> IsChannelError skip_retry_error \<and>
   AutomaticDisableChannelEnabled example_globals \<and>
   StatusCode skip_retry_error = 401 \<and>
   Code (ToOpenAIError skip_retry_error) \<in> set disable_codes \<and>
   Type (ToOpenAIError skip_retry_error) \<in> set disable_types \<and>
   fst (AcSearch example_env (ToLower example_env (Error skip_retry_error))
          (AutomaticDisableKeywords example_globals) True) \<and>
   \<not> ShouldDisableChannel example_globals example_env 24 (Some skip_retry_error) \<and>
   ShouldDisableChannel example_globals example_env 24
     (Some (skip_retry_error\<lparr>skipRetry := False\<rparr>)) \<and>
   IsChannelError (skip_retry_error\<lparr>channelLevel := True\<rparr>) \<and>
   IsSkipRetryError (skip_retry_error\<lparr>channelLevel := True\<rparr>) \<and>
   ShouldDisableChannel example_globals example_env 24
     (Some (skip_retry_error\<lparr>channelLevel := True\<rparr>))"
  using skip_retry_veto [of skip_retry_error example_globals example_env 24]
    skip_retry_veto [of "skip_retry_error\<lparr>channelLevel := True\<rparr>" example_globals example_env 24]
  by code_simp

text \<open>
  C2. \<open>ShouldEnableChannel\<close> is true exactly when the automatic-enable switch is on, the
  error is nil and the stored status is the automatically-disabled one; so it is false
  for every non-nil error, whatever the status, and false for every other status, also
  with a nil error.
\<close>

theorem ShouldEnableChannel_iff:
  "(ShouldEnableChannel g err status \<longleftrightarrow>
      AutomaticEnableChannelEnabled g \<and> err = None \<and> status = ChannelStatusAutoDisabled g) \<and>
   (\<forall>e st. \<not> ShouldEnableChannel g (Some e) st) \<and>
   (\<forall>st. st \<noteq> ChannelStatusAutoDisabled g \<longrightarrow> \<not> ShouldEnableChannel g None st)"
  by (simp add: ShouldEnableChannel_def)

theorem ShouldEnableChannel_iff_witness:
  "ShouldEnableChannel example_globals None 3 \<and>
   \<not> ShouldEnableChannel example_globals (Some plain_forbidden_error) 3 \<and>
   (2::int) \<noteq> ChannelStatusAutoDisabled example_globals \<and>
   \<not> ShouldEnableChannel example_globals None 2 \<and>
   \<not> ShouldEnableChannel (example_globals\<lparr>AutomaticEnableChannelEnabled := False\<rparr>) None 3"
  using ShouldEnableChannel_iff [of example_globals None 3]
    ShouldEnableChannel_iff [of example_globals "Some plain_forbidden_error" 3]
    ShouldEnableChannel_iff [of example_globals None 2]
    ShouldEnableChannel_iff [of "example_globals\<lparr>AutomaticEnableChannelEnabled := False\<rparr>" None 3]
  by (simp add: example_globals_def)

text \<open>
  C4. With the automatic-disable switch on, an error with status 403 that carries neither
  flag and matches none of the other rules (its code and its type are not listed, its
  lowercased message contains no keyword) is a reason to disable exactly when the channel
  type is Gemini.
\<close>

theorem forbidden_only_gemini:
  assumes "AutomaticDisableChannelEnabled g"
    and "StatusCode e = 403"
    and "\<not> IsChannelError e" and "\<not> IsSkipRetryError e"
    and "Code (ToOpenAIError e) \<notin> set disable_codes"
    and "Type (ToOpenAIError e) \<notin> set disable_types"
    and "\<not> fst (AcSearch env (ToLower env (Error e)) (AutomaticDisableKeywords g) True)"
  shows "ShouldDisableChannel g env channelType (Some e) \<longleftrightarrow> channelType = ChannelTypeGemini g"
  using assms by (simp add: ShouldDisableChannel_rules)

theorem forbidden_only_gemini_witness:
  "AutomaticDisableChannelEnabled example_globals \<and> StatusCode plain_forbidden_error = 403 \<and>
   \<not> IsChannelError plain_forbidden_error \<and> \<not> IsSkipRetryError plain_forbidden_error \<and>
   Code (ToOpenAIError plain_forbidden_error) \<notin> set disable_codes \<and>
   Type (ToOpenAIError plain_forbidden_error) \<notin> set disable_types \<and>
   \<not> fst (AcSearch example_env (ToLower example_env (Error plain_forbidden_error))
          (AutomaticDisableKeywords example_globals) True) \<and>
   ShouldDisableChannel example_globals example_env 24 (Some plain_forbidden_error) \<and>
   \<not> ShouldDisableChannel example_globals example_env 1 (Some plain_forbidden_error)"
proof -
  have pre: "AutomaticDisableChannelEnabled example_globals" "StatusCode plain_forbidden_error = 403"
    "\<not> IsChannelError plain_forbidden_error" "\<not> IsSkipRetryError plain_forbidden_error"
    "Code (ToOpenAIError plain_forbidden_error) \<notin> set disable_codes"
    "Type (ToOpenAIError plain_forbidden_error) \<notin> set disable_types"
    "\<not> fst (AcSearch example_env (ToLower example_env (Error plain_forbidden_error))
          (AutomaticDisableKeywords example_globals) True)"
    by code_simp+
  have gem: "ChannelTypeGemini example_globals = 24"
    by (simp add: example_globals_def)
  show ?thesis
    using pre forbidden_only_gemini [OF pre, of 24] forbidden_only_gemini [OF pre, of 1] gem
    by simp
qed


section \<open>The notification key\<close>

text \<open>
  The decimal rendering is injective and contains no underscore, so a key can be split
  again at its separators.
\<close>

lemma digit_char_code: "d < 10 \<Longrightarrow> of_char (digit_char d) = (48 + d :: nat)"
  by (simp add: digit_char_def)

lemma digit_char_inj: "a < 10 \<Longrightarrow> b < 10 \<Longrightarrow> digit_char a = digit_char b \<Longrightarrow> a = b"
proof -
  assume a: "a < 10" and b: "b < 10" and eq: "digit_char a = digit_char b"
  have "(of_char (digit_char a) :: nat) = of_char (digit_char b)"
    by (simp only: eq)
  then have "48 + a = 48 + b"
    by (simp only: digit_char_code [OF a] digit_char_code [OF b])
  then show "a = b" by simp
qed

lemma digit_char_not_underscore: "d < 10 \<Longrightarrow> digit_char d \<noteq> CHR ''_''"
proof
  assume d: "d < 10" and eq: "digit_char d = CHR ''_''"
  have "(of_char (digit_char d) :: nat) = 95" by (simp add: eq)
  with digit_char_code [OF d] d show False by simp
qed

lemma digit_char_not_minus: "d < 10 \<Longrightarrow> digit_char d \<noteq> CHR ''-''"
proof
  assume d: "d < 10" and eq: "digit_char d = CHR ''-''"
  have "(of_char (digit_char d) :: nat) = 45" by (simp add: eq)
  with digit_char_code [OF d] d show False by simp
qed

lemma digits_not_Nil: "digits n \<noteq> []"
  by (subst digits.simps) simp

lemma digits_chars: "c \<in> set (digits n) \<Longrightarrow> \<exists>d<10. c = digit_char d"
proof (induction n rule: digits.induct)
  case (1 n)
  show ?case
  proof (cases "n < 10")
    case True
    with "1.prems" show ?thesis by (subst (asm) digits.simps) auto
  next
    case False
    from "1.prems" have "c \<in> set (digits (n div 10)) \<or> c = digit_char (n mod 10)"
      by (subst (asm) digits.simps) (auto simp: False)
    then show ?thesis
    proof
      assume "c \<in> set (digits (n div 10))"
      with "1.IH" False show ?thesis by simp
    next
      assume "c = digit_char (n mod 10)"
      moreover have "n mod 10 < 10" by simp
      ultimately show ?thesis by blast
    qed
  qed
qed

lemma digits_single: "digits n = [c] \<Longrightarrow> n < 10"
proof (rule ccontr)
  assume eq: "digits n = [c]" and "\<not> n < 10"
  then have "digits (n div 10) @ [digit_char (n mod 10)] = [c]"
    by (subst (asm) digits.simps) simp
  then have "digits (n div 10) = []" by simp
  with digits_not_Nil show False by blast
qed

lemma digits_inj: "digits a = digits b \<Longrightarrow> a = b"
proof (induction a arbitrary: b rule: digits.induct)
  case (1 a)
  show ?case
  proof (cases "a < 10")
    case True
    then have da: "digits a = [digit_char a]" by (subst digits.simps) simp
    with "1.prems" have "digits b = [digit_char a]" by simp
    then have b: "b < 10" by (rule digits_single)
    then have "digits b = [digit_char b]" by (subst digits.simps) simp
    with da "1.prems" have "digit_char a = digit_char b" by simp
    with True b show ?thesis by (rule digit_char_inj)
  next
    case False
    then have da: "digits a = digits (a div 10) @ [digit_char (a mod 10)]"
      by (subst digits.simps) simp
    have b: "\<not> b < 10"
    proof
      assume "b < 10"
      then have "digits b = [digit_char b]" by (subst digits.simps) simp
      with "1.prems" have "digits a = [digit_char b]" by simp
      then have "a < 10" by (rule digits_single)
      with False show False by simp
    qed
    then have db: "digits b = digits (b div 10) @ [digit_char (b mod 10)]"
      by (subst digits.simps) simp
    from da db "1.prems" have eqs: "digits (a div 10) = digits (b div 10)"
      "digit_char (a mod 10) = digit_char (b mod 10)" by simp_all
    from "1.IH" [OF False eqs(1)] have "a div 10 = b div 10" .
    moreover have "a mod 10 = b mod 10"
      by (rule digit_char_inj [OF _ _ eqs(2)]) simp_all
    ultimately show ?thesis by (metis div_mult_mod_eq)
  qed
qed

lemma fmt_d_chars: "CHR ''_'' \<notin> set (fmt_d i)"
proof
  assume "CHR ''_'' \<in> set (fmt_d i)"
  then have "CHR ''_'' \<in> set (digits (nat (- i))) \<or> CHR ''_'' \<in> set (digits (nat i))"
    by (auto simp: fmt_d_def split: if_splits)
  then obtain d where "d < 10" "CHR ''_'' = digit_char d"
    using digits_chars by blast
  with digit_char_not_underscore show False by metis
qed

lemma digits_hd_not_minus: "digits n \<noteq> CHR ''-'' # s"
proof
  assume eq: "digits n = CHR ''-'' # s"
  then have "CHR ''-'' \<in> set (digits n)" by simp
  then obtain d where "d < 10" "CHR ''-'' = digit_char d"
    using digits_chars by blast
  with digit_char_not_minus show False by metis
qed

lemma fmt_d_inj: "fmt_d i = fmt_d j \<Longrightarrow> i = j"
proof -
  assume eq: "fmt_d i = fmt_d j"
  consider (nn) "i < 0" "j < 0" | (np) "i < 0" "\<not> j < 0" | (pn) "\<not> i < 0" "j < 0"
    | (pp) "\<not> i < 0" "\<not> j < 0" by blast
  then show ?thesis
  proof cases
    case nn
    with eq have "digits (nat (- i)) = digits (nat (- j))" by (simp add: fmt_d_def)
    then have "nat (- i) = nat (- j)" by (rule digits_inj)
    with nn show ?thesis by simp
  next
    case np
    with eq have "digits (nat j) = CHR ''-'' # digits (nat (- i))" by (simp add: fmt_d_def)
    with digits_hd_not_minus show ?thesis by blast
  next
    case pn
    with eq have "digits (nat i) = CHR ''-'' # digits (nat (- j))" by (simp add: fmt_d_def)
    with digits_hd_not_minus show ?thesis by blast
  next
    case pp
    with eq have "digits (nat i) = digits (nat j)" by (simp add: fmt_d_def)
    then have "nat i = nat j" by (rule digits_inj)
    with pp show ?thesis by simp
  qed
qed

lemma split_at_separator:
  "x \<notin> set xs \<Longrightarrow> x \<notin> set xs' \<Longrightarrow> xs @ x # ys = xs' @ x # ys' \<Longrightarrow> xs = xs' \<and> ys = ys'"
proof (induction xs arbitrary: xs')
  case Nil
  then show ?case by (cases xs') auto
next
  case (Cons a xs)
  then show ?case by (cases xs') auto
qed

lemma formatNotifyType_inj:
  assumes "formatNotifyType g c1 s1 = formatNotifyType g c2 s2"
  shows "c1 = c2 \<and> s1 = s2"
proof -
  from assms have "fmt_d c1 @ CHR ''_'' # fmt_d s1 = fmt_d c2 @ CHR ''_'' # fmt_d s2"
    by (simp add: formatNotifyType_def)
  then have "fmt_d c1 = fmt_d c2 \<and> fmt_d s1 = fmt_d s2"
    by (rule split_at_separator [OF fmt_d_chars fmt_d_chars])
  then show ?thesis by (simp add: fmt_d_inj)
qed

text \<open>
  C9. The key of a notification is the prefix, the channel id and the status in decimal,
  joined by underscores; it is a function of its arguments, and two keys built with the
  same prefix are equal only for the same channel id and the same status.
\<close>

theorem formatNotifyType_key:
  "formatNotifyType g channelId status =
     NotifyTypeChannelUpdate g @ ''_'' @ fmt_d channelId @ ''_'' @ fmt_d status \<and>
   (formatNotifyType g c1 s1 = formatNotifyType g c2 s2 \<longleftrightarrow> (c1, s1) = (c2, s2))"
  using formatNotifyType_inj [of g c1 s1 c2 s2] by (auto simp: formatNotifyType_def)

theorem formatNotifyType_key_witness:
  "formatNotifyType example_globals 5 3 = ''channel_update_5_3'' \<and>
   formatNotifyType example_globals 5 1 = ''channel_update_5_1'' \<and>
   formatNotifyType example_globals 6 3 = ''channel_update_6_3'' \<and>
   formatNotifyType example_globals (-12) 305 = ''channel_update_-12_305'' \<and>
   formatNotifyType example_globals 5 3 \<noteq> formatNotifyType example_globals 5 1 \<and>
   formatNotifyType example_globals 5 1 \<noteq> formatNotifyType example_globals 6 3 \<and>
   formatNotifyType example_globals 5 3 \<noteq> formatNotifyType example_globals 6 3"
proof -
  have d: "fmt_d 5 = ''5''" "fmt_d 3 = ''3''" "fmt_d 1 = ''1''" "fmt_d 6 = ''6''"
    "fmt_d (-12) = ''-12''" "fmt_d 305 = ''305''"
    by code_simp+
  have p: "NotifyTypeChannelUpdate example_globals = ''channel_update''"
    by (simp add: example_globals_def)
  have vals: "formatNotifyType example_globals 5 3 = ''channel_update_5_3''"
    "formatNotifyType example_globals 5 1 = ''channel_update_5_1''"
    "formatNotifyType example_globals 6 3 = ''channel_update_6_3''"
    "formatNotifyType example_globals (-12) 305 = ''channel_update_-12_305''"
    by (simp_all add: formatNotifyType_def d p)
  show ?thesis
    using formatNotifyType_key [of example_globals 5 3 5 3 5 1]
      formatNotifyType_key [of example_globals 5 1 5 1 6 3]
      formatNotifyType_key [of example_globals 5 3 5 3 6 3]
    by (simp add: vals d p)
qed


section \<open>Disabling a channel\<close>

lemma DisableChannel_AutoBan_on:
  assumes "AutoBan channelError"
    and "store (ChannelId channelError) (UsingKey channelError) (ChannelStatusAutoDisabled g) reason"
  shows "DisableChannel g store now channelError reason =
     [SysLog (disable_log_message (ChannelName channelError) (ChannelId channelError) reason),
      UpdateChannelStatus (ChannelId channelError) (UsingKey channelError)
        (ChannelStatusAutoDisabled g) reason,
      NotifyRootUser
        (formatNotifyType g (ChannelId channelError) (ChannelStatusAutoDisabled g))
        (disable_subject (ChannelName channelError) (ChannelId channelError))
        (disable_content (ChannelName channelError) (ChannelId channelError) now reason)]"
  using assms by (simp add: DisableChannel_def)

text \<open>
  C3. For a channel error with \<open>AutoBan\<close> false, \<open>DisableChannel\<close> writes its two log lines
  and does nothing else, whatever the reason, the store and the clock are: it makes no call
  of \<open>UpdateChannelStatus\<close> and hands no notification to \<open>NotifyRootUser\<close>.
\<close>

theorem DisableChannel_AutoBan_off:
  assumes "\<not> AutoBan channelError"
  shows "DisableChannel g store now channelError reason =
           [SysLog (disable_log_message (ChannelName channelError) (ChannelId channelError) reason),
            SysLog (skip_log_message (ChannelName channelError) (ChannelId channelError))] \<and>
         list_all is_SysLog (DisableChannel g store now channelError reason)"
  using assms by (simp add: DisableChannel_def)

theorem DisableChannel_AutoBan_off_witness:
  "\<not> AutoBan unbanned_channel \<and>
   DisableChannel example_globals accepting_store ''2025-01-01 00:00:00'' unbanned_channel
       ''invalid_api_key'' =
     [SysLog (disable_log_message ''gemini-main'' 5 ''invalid_api_key''),
      SysLog (skip_log_message ''gemini-main'' 5)] \<and>
   list_all is_SysLog
     (DisableChannel example_globals accepting_store ''2025-01-01 00:00:00'' unbanned_channel
        ''invalid_api_key'') \<and>
   DisableChannel example_globals accepting_store ''2025-01-01 00:00:00''
       (unbanned_channel\<lparr>AutoBan := True\<rparr>) ''invalid_api_key'' =
     [SysLog (disable_log_message ''gemini-main'' 5 ''invalid_api_key''),
      UpdateChannelStatus 5 [] 3 ''invalid_api_key'',
      NotifyRootUser (formatNotifyType example_globals 5 3) (disable_subject ''gemini-main'' 5)
        (disable_content ''gemini-main'' 5 ''2025-01-01 00:00:00'' ''invalid_api_key'')]"
proof -
  have off: "\<not> AutoBan unbanned_channel"
    by (simp add: unbanned_channel_def NewChannelError_def)
  have fields: "ChannelName unbanned_channel = ''gemini-main''" "ChannelId unbanned_channel = 5"
    "UsingKey unbanned_channel = []" "ChannelStatusAutoDisabled example_globals = 3"
    by (simp_all add: unbanned_channel_def NewChannelError_def example_globals_def)
  show ?thesis
    using off DisableChannel_AutoBan_off [OF off, of example_globals accepting_store
        "''2025-01-01 00:00:00''" "''invalid_api_key''"]
      DisableChannel_AutoBan_on [of "unbanned_channel\<lparr>AutoBan := True\<rparr>" accepting_store
        example_globals "''invalid_api_key''" "''2025-01-01 00:00:00''"]
    by (simp add: fields accepting_store_def)
qed


section \<open>Substrings, and the host of a URL\<close>

lemma HasPrefix_prefix: "HasPrefix s p \<longleftrightarrow> prefix p s"
  by (induction s p rule: HasPrefix.induct) auto

lemma Contains_sublist: "Contains s m \<longleftrightarrow> sublist m s"
proof (induction s)
  case Nil
  show ?case by simp
next
  case (Cons c cs)
  show ?case
    by (simp only: Contains.simps HasPrefix_prefix Cons.IH sublist_Cons_right)
qed

lemma Contains_iff: "Contains s m \<longleftrightarrow> (\<exists>a b. s = a @ m @ b)"
  by (simp add: Contains_sublist sublist_def)

lemma Contains_char: "Contains s [c] \<longleftrightarrow> c \<in> set s"
  by (induction s) auto

lemma Contains_trans: "Contains s m \<Longrightarrow> Contains t s \<Longrightarrow> Contains t m"
  unfolding Contains_sublist by (rule sublist_order.order.trans)

lemma oapi_contains_api: "Contains s ''oapi.dingtalk.com'' \<Longrightarrow> Contains s ''api.dingtalk.com''"
proof -
  have "Contains ''oapi.dingtalk.com'' ''api.dingtalk.com''" by simp
  then show "Contains s ''oapi.dingtalk.com'' \<Longrightarrow> Contains s ''api.dingtalk.com''"
    by (rule Contains_trans)
qed

lemma isDingTalkWebhook_iff: "isDingTalkWebhook u \<longleftrightarrow> Contains u ''api.dingtalk.com''"
  unfolding isDingTalkWebhook_def using oapi_contains_api by blast

lemma drop_scheme_suffix: "suffix (drop_scheme u) u"
proof (induction u)
  case Nil
  show ?case by simp
next
  case (Cons c cs)
  show ?case
  proof (cases "HasPrefix (c # cs) ''://''")
    case True
    then have "drop_scheme (c # cs) = drop 3 (c # cs)" by (simp only: drop_scheme.simps if_True)
    then show ?thesis by (simp only: suffix_drop)
  next
    case False
    then have "drop_scheme (c # cs) = drop_scheme cs" by (simp only: drop_scheme.simps if_False)
    with Cons.IH show ?thesis by (simp add: suffix_ConsI)
  qed
qed

lemma spec_url_host_sublist: "sublist (spec_url_host u) u"
proof -
  define rest where "rest = (if Contains u ''://'' then drop_scheme u else u)"
  define authority where "authority = takeWhile (\<lambda>c. c \<notin> set ''/?#'') rest"
  define hostport where "hostport = (if CHR ''@'' \<in> set authority
      then drop 1 (dropWhile (\<lambda>c. c \<noteq> CHR ''@'') authority) else authority)"
  have host: "spec_url_host u = takeWhile (\<lambda>c. c \<noteq> CHR '':'') hostport"
    unfolding spec_url_host_def Let_def rest_def authority_def hostport_def ..
  have 1: "sublist rest u"
    unfolding rest_def using drop_scheme_suffix [of u] by (auto intro: suffix_imp_sublist)
  have 2: "sublist authority rest"
    unfolding authority_def by (rule prefix_imp_sublist) (rule takeWhile_is_prefix)
  have "suffix (drop 1 (dropWhile (\<lambda>c. c \<noteq> CHR ''@'') authority)) authority"
    by (rule suffix_order.trans [OF suffix_drop suffix_dropWhile])
  then have 3: "sublist hostport authority"
    unfolding hostport_def by (auto intro: suffix_imp_sublist)
  have 4: "sublist (spec_url_host u) hostport"
    unfolding host by (rule prefix_imp_sublist) (rule takeWhile_is_prefix)
  from 4 3 2 1 show ?thesis by (meson sublist_order.order.trans)
qed

lemma chat_bot_host_detected: "spec_host_is_chat_bot u \<Longrightarrow> isDingTalkWebhook u"
proof -
  assume "spec_host_is_chat_bot u"
  then have "Contains (spec_url_host u) ''api.dingtalk.com''"
    unfolding spec_host_is_chat_bot_def using oapi_contains_api by blast
  moreover have "Contains u (spec_url_host u)"
    by (simp add: Contains_sublist spec_url_host_sublist)
  ultimately have "Contains u ''api.dingtalk.com''" by (rule Contains_trans)
  then show ?thesis by (simp add: isDingTalkWebhook_iff)
qed

lemma substitute_foldl: "substitute sprintf content vs = foldl sprintf content vs"
  by (induction vs arbitrary: content) simp_all


section \<open>The two halves of SendWebhookNotify\<close>

lemma prepare_Inr:
  assumes "prepare g env webhookURL secret data = Inr (payloadBytes, finalWebhookURL)"
  shows "Marshal env (buildPayload g env webhookURL data) = Inr payloadBytes"
    and "finalWebhookURL =
      (if isDingTalkWebhook webhookURL then dingTalkURL env webhookURL secret else webhookURL)"
  using assms by (auto simp: prepare_def split: if_splits sum.splits)

lemma prepare_Inl:
  assumes "prepare g env webhookURL secret data = Inl err"
  shows "\<exists>e. Marshal env (buildPayload g env webhookURL data) = Inl e"
  using assms by (auto simp: prepare_def split: if_splits sum.splits)


lemma workerRequest_fields:
  "wr_URL (workerRequest env webhookURL secret payloadBytes finalWebhookURL) = finalWebhookURL"
  "wr_Body (workerRequest env webhookURL secret payloadBytes finalWebhookURL) = payloadBytes"
  "wr_Method (workerRequest env webhookURL secret payloadBytes finalWebhookURL) = ''POST''"
  "wr_Key (workerRequest env webhookURL secret payloadBytes finalWebhookURL) = WorkerValidKey env"
  by (simp_all add: workerRequest_def Let_def)

lemma httpRequest_fields:
  "req_URL (httpRequest env webhookURL secret payloadBytes finalWebhookURL) = finalWebhookURL"
  "req_Body (httpRequest env webhookURL secret payloadBytes finalWebhookURL) = payloadBytes"
  "req_Method (httpRequest env webhookURL secret payloadBytes finalWebhookURL) = ''POST''"
  by (simp_all add: httpRequest_def Let_def)

lemma sendThroughWorker_addressed:
  "list_all (addressed finalWebhookURL payloadBytes)
     (snd (sendThroughWorker env webhookURL secret payloadBytes finalWebhookURL))"
  by (simp add: sendThroughWorker_def Let_def addressed_def workerRequest_fields split: sum.splits)

lemma sendDirect_addressed:
  "list_all (addressed finalWebhookURL payloadBytes)
     (snd (sendDirect env webhookURL secret payloadBytes finalWebhookURL))"
  by (simp add: sendDirect_def Let_def addressed_def httpRequest_fields
      split: sum.splits option.splits)

lemma SendWebhookNotify_addressed:
  assumes "prepare g env webhookURL secret data = Inr (payloadBytes, finalWebhookURL)"
  shows "list_all (addressed finalWebhookURL payloadBytes)
     (snd (SendWebhookNotify g env webhookURL secret data))"
  using assms sendThroughWorker_addressed [of finalWebhookURL payloadBytes env webhookURL secret]
    sendDirect_addressed [of finalWebhookURL payloadBytes env webhookURL secret]
  by (simp add: SendWebhookNotify_def)

lemma SendWebhookNotify_encoding_failed:
  assumes "prepare g env webhookURL secret data = Inl err"
  shows "SendWebhookNotify g env webhookURL secret data = (Some err, [])"
  using assms by (simp add: SendWebhookNotify_def)


section \<open>Formatting, signing and delivery\<close>

lemma digit_char_values:
  "digit_char 0 = CHR ''0''" "digit_char 1 = CHR ''1''" "digit_char (Suc 0) = CHR ''1''"
  "digit_char 2 = CHR ''2''" "digit_char 3 = CHR ''3''" "digit_char 4 = CHR ''4''"
  "digit_char 5 = CHR ''5''" "digit_char 6 = CHR ''6''" "digit_char 7 = CHR ''7''"
  "digit_char 8 = CHR ''8''" "digit_char 9 = CHR ''9''"
  by code_simp+

text \<open>
  C5. The content that is delivered comes from the loop over the values, which is a left
  fold: each step formats the current content, taken as the template, with the next value.
  With no value the content is unchanged, with one value there is one substitution. The
  payload struct holds the result of the fold (the generic one as its content, the DingTalk
  one after the conversion of the line breaks), and every body that is sent is the encoding
  of this struct.
\<close>

theorem content_substitution:
  "substitute sprintf content values = foldl sprintf content values \<and>
   substitute sprintf content [] = content \<and>
   substitute sprintf content [v] = sprintf content v \<and>
   buildPayload g env webhookURL data =
     (let content = foldl (Sprintf env) (notify_Content data) (notify_Values data)
      in if isDingTalkWebhook webhookURL then DingTalk (dingTalkPayload g data content)
         else Generic \<lparr>payload_Type = notify_Type data, payload_Title = notify_Title data,
                payload_Content = content, payload_Values = notify_Values data,
                payload_Timestamp = Now_Unix env\<rparr>) \<and>
   (\<forall>ev \<in> set (snd (SendWebhookNotify g env webhookURL secret data)).
      \<forall>body. event_Body ev = Some body \<longrightarrow>
        Marshal env (buildPayload g env webhookURL data) = Inr body)"
proof -
  have body: "Marshal env (buildPayload g env webhookURL data) = Inr body"
    if ev: "ev \<in> set (snd (SendWebhookNotify g env webhookURL secret data))"
      and b: "event_Body ev = Some body" for ev body
  proof (cases "prepare g env webhookURL secret data")
    case (Inl err)
    with ev show ?thesis by (simp add: SendWebhookNotify_encoding_failed)
  next
    case (Inr r)
    obtain payloadBytes finalWebhookURL where r: "r = (payloadBytes, finalWebhookURL)"
      by (cases r)
    from Inr r have p: "prepare g env webhookURL secret data = Inr (payloadBytes, finalWebhookURL)"
      by simp
    from SendWebhookNotify_addressed [OF p] ev have "addressed finalWebhookURL payloadBytes ev"
      by (simp add: list_all_iff)
    with b have "body = payloadBytes" by (auto simp: addressed_def)
    with prepare_Inr(1) [OF p] show ?thesis by simp
  qed
  have payload: "buildPayload g env webhookURL data =
     (let content = foldl (Sprintf env) (notify_Content data) (notify_Values data)
      in if isDingTalkWebhook webhookURL then DingTalk (dingTalkPayload g data content)
         else Generic \<lparr>payload_Type = notify_Type data, payload_Title = notify_Title data,
                payload_Content = content, payload_Values = notify_Values data,
                payload_Timestamp = Now_Unix env\<rparr>)"
    by (simp add: substitute_foldl buildPayload_def Let_def)
  have loop: "substitute sprintf content values = foldl sprintf content values"
    "substitute sprintf content [] = content" "substitute sprintf content [v] = sprintf content v"
    by (simp_all add: substitute_foldl)
  from loop payload body show ?thesis by blast
qed

theorem content_substitution_witness:
  "substitute fill_first_verb ''remaining quota: %s'' [] = ''remaining quota: %s'' \<and>
   substitute fill_first_verb ''remaining quota: %s'' [''12''] = ''remaining quota: 12'' \<and>
   buildPayload example_globals example_webhook_env ''https://hooks.example.com/notify''
       example_notify =
     Generic \<lparr>payload_Type = ''quota_exceed'', payload_Title = ''Quota'',
       payload_Content = ''remaining quota: 12'', payload_Values = [''12''],
       payload_Timestamp = 1700000000\<rparr> \<and>
   buildPayload example_globals example_webhook_env ''https://hooks.example.com/notify''
       (example_notify\<lparr>notify_Values := []\<rparr>) =
     Generic \<lparr>payload_Type = ''quota_exceed'', payload_Title = ''Quota'',
       payload_Content = ''remaining quota: %s'', payload_Values = [],
       payload_Timestamp = 1700000000\<rparr> \<and>
   map event_Body (snd (SendWebhookNotify example_globals example_webhook_env
       ''https://hooks.example.com/notify'' [] example_notify)) =
     [None, None, Some ''{content:remaining quota: 12}'', None]"
proof -
  have f1: "substitute fill_first_verb ''remaining quota: %s'' [] = ''remaining quota: %s''"
    by code_simp
  have f2: "substitute fill_first_verb ''remaining quota: %s'' [''12''] = ''remaining quota: 12''"
    by code_simp
  have f3: "buildPayload example_globals example_webhook_env ''https://hooks.example.com/notify''
       example_notify =
     Generic \<lparr>payload_Type = ''quota_exceed'', payload_Title = ''Quota'',
       payload_Content = ''remaining quota: 12'', payload_Values = [''12''],
       payload_Timestamp = 1700000000\<rparr>"
    by code_simp
  have f4: "buildPayload example_globals example_webhook_env ''https://hooks.example.com/notify''
       (example_notify\<lparr>notify_Values := []\<rparr>) =
     Generic \<lparr>payload_Type = ''quota_exceed'', payload_Title = ''Quota'',
       payload_Content = ''remaining quota: %s'', payload_Values = [],
       payload_Timestamp = 1700000000\<rparr>"
    by code_simp
  have f5: "map event_Body (snd (SendWebhookNotify example_globals example_webhook_env
       ''https://hooks.example.com/notify'' [] example_notify)) =
     [None, None, Some ''{content:remaining quota: 12}'', None]"
    by code_simp
  show ?thesis
    using content_substitution [of fill_first_verb "''remaining quota: %s''" "[''12'']" "''12''"
        example_globals example_webhook_env "''https://hooks.example.com/notify''" example_notify "[]"]
    by (simp only: f1 f2 f3 f4 f5 simp_thms)
qed

text \<open>
  C6, as amended. The DingTalk format is chosen exactly when the text of the URL contains
  \<open>oapi.dingtalk.com\<close> or \<open>api.dingtalk.com\<close> anywhere, in the host, the path or the query, and
  the generic format otherwise; in particular a URL whose host contains one of the two
  markers gets the DingTalk format.
\<close>

theorem chat_bot_detection_by_substring:
  "(isDingTalkWebhook u \<longleftrightarrow>
      (\<exists>a b. u = a @ ''oapi.dingtalk.com'' @ b) \<or> (\<exists>a b. u = a @ ''api.dingtalk.com'' @ b)) \<and>
   (isDingTalkWebhook u \<longrightarrow> (\<exists>p. buildPayload g env u data = DingTalk p)) \<and>
   (\<not> isDingTalkWebhook u \<longrightarrow> (\<exists>p. buildPayload g env u data = Generic p)) \<and>
   (spec_host_is_chat_bot u \<longrightarrow> isDingTalkWebhook u)"
proof -
  have "isDingTalkWebhook u \<longleftrightarrow>
      (\<exists>a b. u = a @ ''oapi.dingtalk.com'' @ b) \<or> (\<exists>a b. u = a @ ''api.dingtalk.com'' @ b)"
    unfolding isDingTalkWebhook_def Contains_iff ..
  moreover have "isDingTalkWebhook u \<longrightarrow> (\<exists>p. buildPayload g env u data = DingTalk p)"
    by (simp add: buildPayload_def Let_def)
  moreover have "\<not> isDingTalkWebhook u \<longrightarrow> (\<exists>p. buildPayload g env u data = Generic p)"
    by (simp add: buildPayload_def Let_def)
  moreover have "spec_host_is_chat_bot u \<longrightarrow> isDingTalkWebhook u"
    using chat_bot_host_detected by blast
  ultimately show ?thesis by blast
qed

theorem chat_bot_detection_by_substring_witness:
  "spec_host_is_chat_bot ''https://oapi.dingtalk.com/robot/send?access_token=abc'' \<and>
   isDingTalkWebhook ''https://oapi.dingtalk.com/robot/send?access_token=abc'' \<and>
   buildPayload example_globals example_webhook_env
       ''https://oapi.dingtalk.com/robot/send?access_token=abc'' example_notify =
     DingTalk \<lparr>MsgType = ''markdown'', Markdown_Title = ''Quota'',
       Markdown_Text = ''### Quota'' @ [CHR 0x0A, CHR 0x0A] @ ''remaining quota: 12''\<rparr> \<and>
   \<not> isDingTalkWebhook ''https://hooks.example.com/notify'' \<and>
   buildPayload example_globals example_webhook_env ''https://hooks.example.com/notify''
       example_notify =
     Generic \<lparr>payload_Type = ''quota_exceed'', payload_Title = ''Quota'',
       payload_Content = ''remaining quota: 12'', payload_Values = [''12''],
       payload_Timestamp = 1700000000\<rparr>"
proof -
  have h: "spec_host_is_chat_bot ''https://oapi.dingtalk.com/robot/send?access_token=abc''"
    by code_simp
  have p1: "buildPayload example_globals example_webhook_env
       ''https://oapi.dingtalk.com/robot/send?access_token=abc'' example_notify =
     DingTalk \<lparr>MsgType = ''markdown'', Markdown_Title = ''Quota'',
       Markdown_Text = ''### Quota'' @ [CHR 0x0A, CHR 0x0A] @ ''remaining quota: 12''\<rparr>"
    by code_simp
  have n: "\<not> isDingTalkWebhook ''https://hooks.example.com/notify''"
    by code_simp
  have p2: "buildPayload example_globals example_webhook_env ''https://hooks.example.com/notify''
       example_notify =
     Generic \<lparr>payload_Type = ''quota_exceed'', payload_Title = ''Quota'',
       payload_Content = ''remaining quota: 12'', payload_Values = [''12''],
       payload_Timestamp = 1700000000\<rparr>"
    by code_simp
  from h chat_bot_detection_by_substring
    [of "''https://oapi.dingtalk.com/robot/send?access_token=abc''"
      example_globals example_webhook_env example_notify]
  have d: "isDingTalkWebhook ''https://oapi.dingtalk.com/robot/send?access_token=abc''"
    by blast
  from h d p1 n p2 show ?thesis by blast
qed

text \<open>
  C6, as stated, fails: the detection is a search in the whole URL, not a test of its host.
  The URL below has the host \<open>example.com\<close> and the marker only in its query; it is taken
  for a DingTalk destination and gets the DingTalk payload, while the same URL without the
  query is not.
\<close>

theorem chat_bot_detection_counterexample:
  "spec_url_host ''https://example.com/hook?ref=api.dingtalk.com'' = ''example.com'' \<and>
   \<not> spec_host_is_chat_bot ''https://example.com/hook?ref=api.dingtalk.com'' \<and>
   isDingTalkWebhook ''https://example.com/hook?ref=api.dingtalk.com'' \<and>
   buildPayload example_globals example_webhook_env
       ''https://example.com/hook?ref=api.dingtalk.com'' example_notify =
     DingTalk \<lparr>MsgType = ''markdown'', Markdown_Title = ''Quota'',
       Markdown_Text = ''### Quota'' @ [CHR 0x0A, CHR 0x0A] @ ''remaining quota: 12''\<rparr> \<and>
   spec_url_host ''https://example.com/hook'' = ''example.com'' \<and>
   \<not> isDingTalkWebhook ''https://example.com/hook''"
  by code_simp

lemma spec_has_query_question_mark: "spec_has_query u \<Longrightarrow> CHR ''?'' \<in> set u"
  unfolding spec_has_query_def by (rule set_takeWhileD [THEN conjunct1])

lemma spec_has_query_no_fragment:
  assumes "CHR ''#'' \<notin> set u"
  shows "spec_has_query u \<longleftrightarrow> CHR ''?'' \<in> set u"
proof -
  from assms have whole: "takeWhile (\<lambda>c. c \<noteq> CHR ''#'') u = u"
    by (simp add: takeWhile_eq_all_conv) blast
  show ?thesis unfolding spec_has_query_def whole ..
qed

text \<open>
  C7, as amended. For a DingTalk URL, when the payload encodes, the final URL is the given
  URL followed by \<open>&\<close> if the given URL contains a question mark anywhere and by \<open>?\<close>
  otherwise, then by one parameter \<open>timestamp\<close> and one parameter \<open>sign\<close>; the timestamp is
  the clock in milliseconds, and the sign is the escaped base64 text of the HMAC-SHA256
  digest, keyed by the secret, of the same timestamp, a line feed and the secret. A URL
  that has a query string contains a question mark, so it is joined with \<open>&\<close>; for a URL
  without a fragment, containing a question mark and having a query string are the same.
  With an empty secret the final URL is the given URL. Everything the function then does
  is addressed to the final URL.
\<close>

theorem dingTalk_signed_URL:
  assumes "isDingTalkWebhook webhookURL"
    and "prepare g env webhookURL secret data = Inr (payloadBytes, finalWebhookURL)"
  shows "(secret \<noteq> [] \<longrightarrow>
           finalWebhookURL =
             webhookURL @ (if CHR ''?'' \<in> set webhookURL then ''&'' else ''?'') @
             ''timestamp='' @ fmt_d (Now_UnixNano env sdiv 1000000) @ ''&sign='' @
             QueryEscape env (base64_EncodeToString env (hmac_sha256 env secret
               (fmt_d (Now_UnixNano env sdiv 1000000) @ [CHR 0x0A] @ secret)))) \<and>
         (spec_has_query webhookURL \<longrightarrow> CHR ''?'' \<in> set webhookURL) \<and>
         (CHR ''#'' \<notin> set webhookURL \<longrightarrow>
            (spec_has_query webhookURL \<longleftrightarrow> CHR ''?'' \<in> set webhookURL)) \<and>
         (secret = [] \<longrightarrow> finalWebhookURL = webhookURL) \<and>
         list_all (\<lambda>ev. event_URL ev = None \<or> event_URL ev = Some finalWebhookURL)
           (snd (SendWebhookNotify g env webhookURL secret data))"
proof -
  from prepare_Inr(2) [OF assms(2)] assms(1)
  have final: "finalWebhookURL = dingTalkURL env webhookURL secret" by simp
  have q: "Contains webhookURL ''?'' \<longleftrightarrow> CHR ''?'' \<in> set webhookURL"
    by (rule Contains_char)
  have "list_all (addressed finalWebhookURL payloadBytes)
     (snd (SendWebhookNotify g env webhookURL secret data))"
    by (rule SendWebhookNotify_addressed [OF assms(2)])
  then have ev: "list_all (\<lambda>ev. event_URL ev = None \<or> event_URL ev = Some finalWebhookURL)
           (snd (SendWebhookNotify g env webhookURL secret data))"
    by (simp add: list_all_iff addressed_def)
  have signed: "secret \<noteq> [] \<longrightarrow>
           finalWebhookURL =
             webhookURL @ (if CHR ''?'' \<in> set webhookURL then ''&'' else ''?'') @
             ''timestamp='' @ fmt_d (Now_UnixNano env sdiv 1000000) @ ''&sign='' @
             QueryEscape env (base64_EncodeToString env (hmac_sha256 env secret
               (fmt_d (Now_UnixNano env sdiv 1000000) @ [CHR 0x0A] @ secret)))"
    by (simp add: final dingTalkURL_def generateDingTalkSign_def Let_def q)
  have plain: "secret = [] \<longrightarrow> finalWebhookURL = webhookURL"
    by (simp add: final dingTalkURL_def)
  from signed plain ev spec_has_query_question_mark [of webhookURL]
    spec_has_query_no_fragment [of webhookURL]
  show ?thesis by blast
qed

theorem dingTalk_signed_URL_witness:
  "isDingTalkWebhook ''https://oapi.dingtalk.com/robot/send?access_token=abc'' \<and>
   isDingTalkWebhook ''https://oapi.dingtalk.com/robot/send'' \<and>
   spec_has_query ''https://oapi.dingtalk.com/robot/send?access_token=abc'' \<and>
   \<not> spec_has_query ''https://oapi.dingtalk.com/robot/send'' \<and>
   CHR ''#'' \<notin> set ''https://oapi.dingtalk.com/robot/send'' \<and>
   prepare example_globals example_webhook_env
       ''https://oapi.dingtalk.com/robot/send?access_token=abc'' ''s3cret'' example_notify =
     Inr (''{markdown:### Quota'' @ [CHR 0x0A, CHR 0x0A] @ ''remaining quota: 12}'',
          ''https://oapi.dingtalk.com/robot/send?access_token=abc&timestamp=1700000000123&sign=esc(b64(hmac(s3cret,1700000000123''
            @ [CHR 0x0A] @ ''s3cret)))'') \<and>
   prepare example_globals example_webhook_env
       ''https://oapi.dingtalk.com/robot/send'' ''s3cret'' example_notify =
     Inr (''{markdown:### Quota'' @ [CHR 0x0A, CHR 0x0A] @ ''remaining quota: 12}'',
          ''https://oapi.dingtalk.com/robot/send?timestamp=1700000000123&sign=esc(b64(hmac(s3cret,1700000000123''
            @ [CHR 0x0A] @ ''s3cret)))'') \<and>
   prepare example_globals example_webhook_env
       ''https://oapi.dingtalk.com/robot/send'' [] example_notify =
     Inr (''{markdown:### Quota'' @ [CHR 0x0A, CHR 0x0A] @ ''remaining quota: 12}'',
          ''https://oapi.dingtalk.com/robot/send'')"
proof -
  have d1: "isDingTalkWebhook ''https://oapi.dingtalk.com/robot/send?access_token=abc''"
    and d2: "isDingTalkWebhook ''https://oapi.dingtalk.com/robot/send''"
    by code_simp+
  have h1: "spec_has_query ''https://oapi.dingtalk.com/robot/send?access_token=abc''"
    and h2: "\<not> spec_has_query ''https://oapi.dingtalk.com/robot/send''"
    and h3: "CHR ''#'' \<notin> set ''https://oapi.dingtalk.com/robot/send''"
    by code_simp+
  have ms: "Now_UnixNano example_webhook_env sdiv 1000000 = 1700000000123"
    by (simp add: example_webhook_env_def signed_divide_int_def)
  have ts: "fmt_d 1700000000123 = ''1700000000123''"
    by (simp add: fmt_d_def digits.simps digit_char_values)
  have m1: "Marshal example_webhook_env (buildPayload example_globals example_webhook_env
       ''https://oapi.dingtalk.com/robot/send?access_token=abc'' example_notify) =
     Inr (''{markdown:### Quota'' @ [CHR 0x0A, CHR 0x0A] @ ''remaining quota: 12}'')"
    by code_simp
  have m2: "Marshal example_webhook_env (buildPayload example_globals example_webhook_env
       ''https://oapi.dingtalk.com/robot/send'' example_notify) =
     Inr (''{markdown:### Quota'' @ [CHR 0x0A, CHR 0x0A] @ ''remaining quota: 12}'')"
    by code_simp
  have u1: "dingTalkURL example_webhook_env
       ''https://oapi.dingtalk.com/robot/send?access_token=abc'' ''s3cret'' =
     ''https://oapi.dingtalk.com/robot/send?access_token=abc&timestamp=1700000000123&sign=esc(b64(hmac(s3cret,1700000000123''
            @ [CHR 0x0A] @ ''s3cret)))''"
    by (simp add: dingTalkURL_def generateDingTalkSign_def Let_def ms ts)
      (simp add: example_webhook_env_def)
  have u2: "dingTalkURL example_webhook_env ''https://oapi.dingtalk.com/robot/send'' ''s3cret'' =
     ''https://oapi.dingtalk.com/robot/send?timestamp=1700000000123&sign=esc(b64(hmac(s3cret,1700000000123''
            @ [CHR 0x0A] @ ''s3cret)))''"
    by (simp add: dingTalkURL_def generateDingTalkSign_def Let_def ms ts)
      (simp add: example_webhook_env_def)
  have u3: "dingTalkURL example_webhook_env ''https://oapi.dingtalk.com/robot/send'' [] =
     ''https://oapi.dingtalk.com/robot/send''"
    by (simp add: dingTalkURL_def)
  have p1: "prepare example_globals example_webhook_env
       ''https://oapi.dingtalk.com/robot/send?access_token=abc'' ''s3cret'' example_notify =
     Inr (''{markdown:### Quota'' @ [CHR 0x0A, CHR 0x0A] @ ''remaining quota: 12}'',
          ''https://oapi.dingtalk.com/robot/send?access_token=abc&timestamp=1700000000123&sign=esc(b64(hmac(s3cret,1700000000123''
            @ [CHR 0x0A] @ ''s3cret)))'')"
    unfolding prepare_def by (simp only: d1 m1 u1 if_True sum.case)
  have p2: "prepare example_globals example_webhook_env
       ''https://oapi.dingtalk.com/robot/send'' ''s3cret'' example_notify =
     Inr (''{markdown:### Quota'' @ [CHR 0x0A, CHR 0x0A] @ ''remaining quota: 12}'',
          ''https://oapi.dingtalk.com/robot/send?timestamp=1700000000123&sign=esc(b64(hmac(s3cret,1700000000123''
            @ [CHR 0x0A] @ ''s3cret)))'')"
    unfolding prepare_def by (simp only: d2 m2 u2 if_True sum.case)
  have p3: "prepare example_globals example_webhook_env
       ''https://oapi.dingtalk.com/robot/send'' [] example_notify =
     Inr (''{markdown:### Quota'' @ [CHR 0x0A, CHR 0x0A] @ ''remaining quota: 12}'',
          ''https://oapi.dingtalk.com/robot/send'')"
    unfolding prepare_def by (simp only: d2 m2 u3 if_True sum.case)
  show ?thesis
    using dingTalk_signed_URL [OF d1 p1] dingTalk_signed_URL [OF d2 p2]
      dingTalk_signed_URL [OF d2 p3]
    by (simp only: d1 d2 h1 h2 h3 p1 p2 p3 simp_thms)
qed

text \<open>
  C7, as stated, fails: the code chooses the separator by a search for a question mark in
  the whole URL, not by the presence of a query string. The DingTalk URL below has no query
  string, its only question mark stands in the fragment; with a secret, the parameters are
  joined to it with \<open>&\<close>, not with \<open>?\<close>.
\<close>

theorem dingTalk_signed_URL_counterexample:
  "isDingTalkWebhook ''https://oapi.dingtalk.com/robot/send#a?b'' \<and>
   \<not> spec_has_query ''https://oapi.dingtalk.com/robot/send#a?b'' \<and>
   prepare example_globals example_webhook_env
       ''https://oapi.dingtalk.com/robot/send#a?b'' ''s3cret'' example_notify =
     Inr (''{markdown:### Quota'' @ [CHR 0x0A, CHR 0x0A] @ ''remaining quota: 12}'',
          ''https://oapi.dingtalk.com/robot/send#a?b&timestamp=1700000000123&sign=esc(b64(hmac(s3cret,1700000000123''
            @ [CHR 0x0A] @ ''s3cret)))'') \<and>
   prepare example_globals example_webhook_env
       ''https://oapi.dingtalk.com/robot/send#a?b'' ''s3cret'' example_notify \<noteq>
     Inr (''{markdown:### Quota'' @ [CHR 0x0A, CHR 0x0A] @ ''remaining quota: 12}'',
          ''https://oapi.dingtalk.com/robot/send#a?b?timestamp=1700000000123&sign=esc(b64(hmac(s3cret,1700000000123''
            @ [CHR 0x0A] @ ''s3cret)))'')"
proof -
  have d: "isDingTalkWebhook ''https://oapi.dingtalk.com/robot/send#a?b''"
    and h: "\<not> spec_has_query ''https://oapi.dingtalk.com/robot/send#a?b''"
    by code_simp+
  have ms: "Now_UnixNano example_webhook_env sdiv 1000000 = 1700000000123"
    by (simp add: example_webhook_env_def signed_divide_int_def)
  have ts: "fmt_d 1700000000123 = ''1700000000123''"
    by (simp add: fmt_d_def digits.simps digit_char_values)
  have m: "Marshal example_webhook_env (buildPayload example_globals example_webhook_env
       ''https://oapi.dingtalk.com/robot/send#a?b'' example_notify) =
     Inr (''{markdown:### Quota'' @ [CHR 0x0A, CHR 0x0A] @ ''remaining quota: 12}'')"
    by code_simp
  have u: "dingTalkURL example_webhook_env ''https://oapi.dingtalk.com/robot/send#a?b'' ''s3cret'' =
     ''https://oapi.dingtalk.com/robot/send#a?b&timestamp=1700000000123&sign=esc(b64(hmac(s3cret,1700000000123''
            @ [CHR 0x0A] @ ''s3cret)))''"
    by (simp add: dingTalkURL_def generateDingTalkSign_def Let_def ms ts)
      (simp add: example_webhook_env_def)
  have p: "prepare example_globals example_webhook_env
       ''https://oapi.dingtalk.com/robot/send#a?b'' ''s3cret'' example_notify =
     Inr (''{markdown:### Quota'' @ [CHR 0x0A, CHR 0x0A] @ ''remaining quota: 12}'',
          ''https://oapi.dingtalk.com/robot/send#a?b&timestamp=1700000000123&sign=esc(b64(hmac(s3cret,1700000000123''
            @ [CHR 0x0A] @ ''s3cret)))'')"
    unfolding prepare_def by (simp only: d m u if_True sum.case)
  have ne: "prepare example_globals example_webhook_env
       ''https://oapi.dingtalk.com/robot/send#a?b'' ''s3cret'' example_notify \<noteq>
     Inr (''{markdown:### Quota'' @ [CHR 0x0A, CHR 0x0A] @ ''remaining quota: 12}'',
          ''https://oapi.dingtalk.com/robot/send#a?b?timestamp=1700000000123&sign=esc(b64(hmac(s3cret,1700000000123''
            @ [CHR 0x0A] @ ''s3cret)))'')"
    unfolding p by simp
  from d h p ne show ?thesis by (intro conjI)
qed

text \<open>
  C8. In direct mode, when the payload encodes, the validation of the final URL is the
  first thing the function does; when the validator rejects the URL, the function returns
  the error \<open>request reject\<close> with the validator's reason, and the validation is the only
  thing it has done: no request is constructed or sent, and the validation is not repeated.
\<close>

theorem direct_mode_rejection:
  assumes "\<not> EnableWorker env"
    and "prepare g env webhookURL secret data = Inr (payloadBytes, finalWebhookURL)"
  shows "(\<exists>rest. snd (SendWebhookNotify g env webhookURL secret data) =
            ValidateURL finalWebhookURL # rest) \<and>
         (\<forall>err. validate env finalWebhookURL = Some err \<longrightarrow>
            SendWebhookNotify g env webhookURL secret data =
              (Some (RequestRejected err), [ValidateURL finalWebhookURL]) \<and>
            error_text (RequestRejected err) = ''request reject: '' @ err)"
  using assms
  by (simp add: SendWebhookNotify_def sendDirect_def Let_def split: option.splits sum.splits)

theorem direct_mode_rejection_witness:
  "\<not> EnableWorker example_webhook_env \<and>
   prepare example_globals example_webhook_env ''http://hooks.example.com/notify'' ''s3cret''
       example_notify =
     Inr (''{content:remaining quota: 12}'', ''http://hooks.example.com/notify'') \<and>
   validate example_webhook_env ''http://hooks.example.com/notify'' = Some ''scheme not allowed'' \<and>
   SendWebhookNotify example_globals example_webhook_env ''http://hooks.example.com/notify''
       ''s3cret'' example_notify =
     (Some (RequestRejected ''scheme not allowed''),
      [ValidateURL ''http://hooks.example.com/notify''])"
proof -
  have w: "\<not> EnableWorker example_webhook_env"
    by (simp add: example_webhook_env_def)
  have p: "prepare example_globals example_webhook_env ''http://hooks.example.com/notify''
       ''s3cret'' example_notify =
     Inr (''{content:remaining quota: 12}'', ''http://hooks.example.com/notify'')"
    by code_simp
  have v: "validate example_webhook_env ''http://hooks.example.com/notify'' =
      Some ''scheme not allowed''"
    by code_simp
  show ?thesis
    using w p v direct_mode_rejection [OF w p] by simp
qed




end
